theory Spec2Isabelle
  imports Main "HOL-Library.Sublist"
begin

section \<open>Python values and exceptions\<close>

text \<open>
  The two entrypoints work on what \<^verbatim>\<open>xmltodict.parse\<close> returns: nested Python values
  built from \<^verbatim>\<open>None\<close>, \<^verbatim>\<open>str\<close>, \<^verbatim>\<open>dict\<close> and \<^verbatim>\<open>list\<close>. The
  source also passes the integer \<^verbatim>\<open>0\<close> as a default to \<^verbatim>\<open>dict.get\<close>, so integers
  are values too. A \<^verbatim>\<open>dict\<close> keeps insertion order and is an association list; the
  first entry of a key is the one that is looked up. A \<^verbatim>\<open>str\<close> is a \<^typ>\<open>string\<close>, one
  character per code point, which covers the code points below 256.
\<close>

datatype pyval =
    PNone
  | PStr string
  | PInt int
  | PDict "(string \<times> pyval) list"
  | PList "pyval list"

text \<open>
  The exception classes that can occur. \<^verbatim>\<open>DefusedXmlException\<close> (defusedxml) and
  \<^verbatim>\<open>ValidationError\<close> (pydantic) are subclasses of \<^verbatim>\<open>ValueError\<close>;
  \<^verbatim>\<open>ExpatError\<close> (xml.parsers.expat, what an expat-based parser raises on text that
  is not well-formed) derives from \<^verbatim>\<open>Exception\<close> directly, as do the others.
  An exception carries the text of \<^verbatim>\<open>str(e)\<close>.
\<close>

datatype exn_class =
    ValueError
  | DefusedXmlException
  | ValidationError
  | TypeError
  | AttributeError
  | KeyError
  | UnboundLocalError
  | ExpatError
  | TransportError

datatype exn = Exn exn_class string

fun exn_cls :: "exn \<Rightarrow> exn_class" where
  "exn_cls (Exn c m) = c"

fun exn_str :: "exn \<Rightarrow> string" where
  "exn_str (Exn c m) = m"

text \<open>\<^verbatim>\<open>isinstance(e, ValueError)\<close> and \<^verbatim>\<open>isinstance(e, DefusedXmlException)\<close>.\<close>

fun is_ValueError :: "exn_class \<Rightarrow> bool" where
  "is_ValueError ValueError = True"
| "is_ValueError DefusedXmlException = True"
| "is_ValueError ValidationError = True"
| "is_ValueError _ = False"

fun is_DefusedXmlException :: "exn_class \<Rightarrow> bool" where
  "is_DefusedXmlException DefusedXmlException = True"
| "is_DefusedXmlException _ = False"

subsection \<open>Truthiness, type names, \<^verbatim>\<open>.get\<close>\<close>

text \<open>\<^verbatim>\<open>bool(v)\<close>, as used by \<^verbatim>\<open>if v:\<close> and \<^verbatim>\<open>if not v:\<close>.\<close>

fun truthy :: "pyval \<Rightarrow> bool" where
  "truthy PNone = False"
| "truthy (PStr s) = (s \<noteq> [])"
| "truthy (PInt n) = (n \<noteq> 0)"
| "truthy (PDict kvs) = (kvs \<noteq> [])"
| "truthy (PList xs) = (xs \<noteq> [])"

fun type_name :: "pyval \<Rightarrow> string" where
  "type_name PNone = ''NoneType''"
| "type_name (PStr s) = ''str''"
| "type_name (PInt n) = ''int''"
| "type_name (PDict kvs) = ''dict''"
| "type_name (PList xs) = ''list''"

definition apostrophe :: char where
  "apostrophe = CHR 0x27"

definition dquote :: char where
  "dquote = CHR 0x22"

definition backslash :: char where
  "backslash = CHR 0x5C"

definition quoted :: "string \<Rightarrow> string" where
  "quoted s = [apostrophe] @ s @ [apostrophe]"

definition no_attribute :: "pyval \<Rightarrow> string \<Rightarrow> exn" where
  "no_attribute v a =
     Exn AttributeError (quoted (type_name v) @ '' object has no attribute '' @ quoted a)"

text \<open>
  \<^verbatim>\<open>v.get(key, default)\<close>: a lookup on a \<^verbatim>\<open>dict\<close>, an \<^verbatim>\<open>AttributeError\<close> on every
  other value. \<^verbatim>\<open>v.get(key)\<close> is the same with the default \<^verbatim>\<open>None\<close>.
\<close>

fun py_get_default :: "pyval \<Rightarrow> string \<Rightarrow> pyval \<Rightarrow> exn + pyval" where
  "py_get_default (PDict kvs) k d = Inr (case map_of kvs k of None \<Rightarrow> d | Some v \<Rightarrow> v)"
| "py_get_default v k d = Inl (no_attribute v ''get'')"

definition py_get :: "pyval \<Rightarrow> string \<Rightarrow> exn + pyval" where
  "py_get v k = py_get_default v k PNone"

subsection \<open>Decimal and hexadecimal text\<close>

definition digit_char :: "nat \<Rightarrow> char" where
  "digit_char d = char_of (of_char (CHR ''0'') + d)"

function show_nat :: "nat \<Rightarrow> string" where
  "show_nat n = (if n < 10 then [digit_char n] else show_nat (n div 10) @ [digit_char (n mod 10)])"
  by pat_completeness auto
termination
  by (relation "measure id") auto

declare show_nat.simps [simp del]

definition show_int :: "int \<Rightarrow> string" where
  "show_int i = (if i < 0 then CHR ''-'' # show_nat (nat (- i)) else show_nat (nat i))"

definition hex_char :: "nat \<Rightarrow> char" where
  "hex_char d = (if d < 10 then digit_char d else char_of (of_char (CHR ''a'') + (d - 10)))"

definition hex2 :: "char \<Rightarrow> string" where
  "hex2 c = [hex_char ((of_char c :: nat) div 16), hex_char ((of_char c :: nat) mod 16)]"

subsection \<open>\<^verbatim>\<open>repr\<close> and \<^verbatim>\<open>str\<close>\<close>

text \<open>
  \<^verbatim>\<open>repr\<close> of a \<^verbatim>\<open>str\<close>: single quotes, unless the text has a single quote and no
  double quote; the quote and the backslash are escaped, tab, newline and carriage
  return get their letters, and a character that is not printable (below 32, 127 to
  160, 173) is written \<^verbatim>\<open>\xhh\<close>.
\<close>

definition repr_quote :: "string \<Rightarrow> char" where
  "repr_quote s = (if apostrophe \<in> set s \<and> dquote \<notin> set s then dquote else apostrophe)"

definition repr_char :: "char \<Rightarrow> char \<Rightarrow> string" where
  "repr_char q c =
     (if c = q \<or> c = backslash then [backslash, c]
      else if c = CHR 0x09 then [backslash, CHR ''t'']
      else if c = CHR 0x0A then [backslash, CHR ''n'']
      else if c = CHR 0x0D then [backslash, CHR ''r'']
      else if (of_char c :: nat) < 32 \<or> (127 \<le> (of_char c :: nat) \<and> (of_char c :: nat) \<le> 160)
              \<or> (of_char c :: nat) = 173
        then [backslash, CHR ''x''] @ hex2 c
      else [c])"

definition repr_str :: "string \<Rightarrow> string" where
  "repr_str s = [repr_quote s] @ concat (map (repr_char (repr_quote s)) s) @ [repr_quote s]"

fun join :: "string \<Rightarrow> string list \<Rightarrow> string" where
  "join sep [] = []"
| "join sep [x] = x"
| "join sep (x # y # ys) = x @ sep @ join sep (y # ys)"

fun py_repr :: "pyval \<Rightarrow> string"
  and py_repr_items :: "pyval list \<Rightarrow> string list"
  and py_repr_pairs :: "(string \<times> pyval) list \<Rightarrow> string list" where
  "py_repr PNone = ''None''"
| "py_repr (PStr s) = repr_str s"
| "py_repr (PInt n) = show_int n"
| "py_repr (PDict kvs) = ''{'' @ join '', '' (py_repr_pairs kvs) @ ''}''"
| "py_repr (PList xs) = ''['' @ join '', '' (py_repr_items xs) @ '']''"
| "py_repr_items [] = []"
| "py_repr_items (x # xs) = py_repr x # py_repr_items xs"
| "py_repr_pairs [] = []"
| "py_repr_pairs ((k, v) # kvs) = (repr_str k @ '': '' @ py_repr v) # py_repr_pairs kvs"

text \<open>\<^verbatim>\<open>str(v)\<close>, which is what an f-string field \<^verbatim>\<open>{v}\<close> inserts.\<close>

fun py_str :: "pyval \<Rightarrow> string" where
  "py_str (PStr s) = s"
| "py_str v = py_repr v"

subsection \<open>\<^verbatim>\<open>int\<close>, \<^verbatim>\<open>len\<close>, slicing\<close>

text \<open>
  \<^verbatim>\<open>int(s)\<close> on a \<^verbatim>\<open>str\<close> (CPython 3.12, which the source needs for
  \<^verbatim>\<open>typing.override\<close>): white space is stripped on both sides, one sign is allowed,
  then decimal digits with single underscores between them. The white space that
  \<^verbatim>\<open>int\<close> strips is tab, line feed, vertical tab, form feed, carriage return and
  space, and above 127 the next-line and no-break-space characters; the separators
  28 to 31 are not stripped. More than 4300 digits
  (the interpreter's default limit) and any other text raise \<^verbatim>\<open>ValueError\<close>.
\<close>

definition py_isspace :: "char \<Rightarrow> bool" where
  "py_isspace c = ((of_char c :: nat) \<in> {9, 10, 11, 12, 13, 32, 133, 160})"

definition py_strip :: "string \<Rightarrow> string" where
  "py_strip s = dropWhile py_isspace (rev (dropWhile py_isspace (rev s)))"

definition is_digit :: "char \<Rightarrow> bool" where
  "is_digit c = ((of_char (CHR ''0'') :: nat) \<le> of_char c \<and> (of_char c :: nat) \<le> of_char (CHR ''9''))"

definition digit_val :: "char \<Rightarrow> nat" where
  "digit_val c = of_char c - of_char (CHR ''0'')"

fun parse_digits :: "nat \<Rightarrow> string \<Rightarrow> nat option" where
  "parse_digits acc [] = Some acc"
| "parse_digits acc [c] = (if is_digit c then Some (acc * 10 + digit_val c) else None)"
| "parse_digits acc (c # d # ds) =
     (if is_digit c then parse_digits (acc * 10 + digit_val c) (d # ds)
      else if c = CHR ''_'' \<and> is_digit d then parse_digits (acc * 10 + digit_val d) ds
      else None)"

fun parse_unsigned :: "string \<Rightarrow> nat option" where
  "parse_unsigned [] = None"
| "parse_unsigned (c # cs) = (if is_digit c then parse_digits (digit_val c) cs else None)"

fun parse_signed :: "string \<Rightarrow> int option" where
  "parse_signed [] = None"
| "parse_signed (c # cs) =
     (if c = CHR ''-'' then map_option (\<lambda>n. - int n) (parse_unsigned cs)
      else if c = CHR ''+'' then map_option int (parse_unsigned cs)
      else map_option int (parse_unsigned (c # cs)))"

definition unsigned_part :: "string \<Rightarrow> string" where
  "unsigned_part s =
     (case s of [] \<Rightarrow> [] | c # cs \<Rightarrow> if c = CHR ''-'' \<or> c = CHR ''+'' then cs else c # cs)"

definition leading_digits :: "string \<Rightarrow> nat" where
  "leading_digits s = length (filter is_digit (takeWhile (\<lambda>c. is_digit c \<or> c = CHR ''_'') s))"

definition invalid_literal :: "string \<Rightarrow> exn" where
  "invalid_literal s =
     Exn ValueError (''invalid literal for int() with base 10: '' @ take 200 (repr_str s))"

definition exceeds_limit :: "nat \<Rightarrow> exn" where
  "exceeds_limit n =
     Exn ValueError (''Exceeds the limit (4300 digits) for integer string conversion: value has ''
       @ show_nat n @ '' digits; use sys.set_int_max_str_digits() to increase the limit'')"

definition py_int_str :: "string \<Rightarrow> exn + int" where
  "py_int_str s =
     (case parse_signed (py_strip s) of
        None \<Rightarrow>
          (if 4300 < leading_digits (unsigned_part (py_strip s))
             \<and> parse_unsigned (takeWhile (\<lambda>c. is_digit c \<or> c = CHR ''_'') (unsigned_part (py_strip s))) \<noteq> None
           then Inl (exceeds_limit (leading_digits (unsigned_part (py_strip s))))
           else Inl (invalid_literal s))
      | Some i \<Rightarrow>
          (if 4300 < leading_digits (unsigned_part (py_strip s))
           then Inl (exceeds_limit (leading_digits (unsigned_part (py_strip s))))
           else Inr i))"

fun py_int :: "pyval \<Rightarrow> exn + int" where
  "py_int (PInt n) = Inr n"
| "py_int (PStr s) = py_int_str s"
| "py_int v =
     Inl (Exn TypeError (''int() argument must be a string, a bytes-like object or a real number, not ''
            @ quoted (type_name v)))"

text \<open>\<^verbatim>\<open>len(v)\<close>: characters of a \<^verbatim>\<open>str\<close>, items of a \<^verbatim>\<open>list\<close>, keys of a \<^verbatim>\<open>dict\<close>.\<close>

fun py_len :: "pyval \<Rightarrow> exn + nat" where
  "py_len (PStr s) = Inr (length s)"
| "py_len (PList xs) = Inr (length xs)"
| "py_len (PDict kvs) = Inr (length (remdups (map fst kvs)))"
| "py_len v = Inl (Exn TypeError (''object of type '' @ quoted (type_name v) @ '' has no len()''))"

text \<open>
  \<^verbatim>\<open>v[:100] + "..."\<close>. A \<^verbatim>\<open>str\<close> is cut and extended; a \<^verbatim>\<open>list\<close> is cut, and then
  adding a \<^verbatim>\<open>str\<close> to it is a \<^verbatim>\<open>TypeError\<close>; a \<^verbatim>\<open>dict\<close> looks the slice up as a key.
\<close>

fun slice100_plus_dots :: "pyval \<Rightarrow> exn + pyval" where
  "slice100_plus_dots (PStr s) = Inr (PStr (take 100 s @ ''...''))"
| "slice100_plus_dots (PList xs) =
     Inl (Exn TypeError (''can only concatenate list (not '' @ [dquote] @ ''str'' @ [dquote] @ '') to list''))"
| "slice100_plus_dots (PDict kvs) = Inl (Exn KeyError ''slice(None, 100, None)'')"
| "slice100_plus_dots v = Inl (Exn TypeError (quoted (type_name v) @ '' object is not subscriptable''))"

section \<open>The search-results normalizer (find_sequence_records.py)\<close>

text \<open>
  \<^verbatim>\<open>class SearchResults(BaseModel)\<close>. The constructor validates its arguments: the
  three integers and the list of error strings are of the declared types by
  construction, while \<^verbatim>\<open>warnings\<close> holds whatever value \<^verbatim>\<open>OutputMessage\<close> had, and
  an item that is not a \<^verbatim>\<open>str\<close> makes pydantic raise \<^verbatim>\<open>ValidationError\<close>.
\<close>

record SearchResults =
  count :: int
  page :: int
  page_size :: int
  sequence_ids :: "string list"
  errors :: "string list"
  warnings :: "string list"

fun the_str :: "pyval \<Rightarrow> string" where
  "the_str (PStr s) = s"
| "the_str v = []"

fun is_str :: "pyval \<Rightarrow> bool" where
  "is_str (PStr s) = True"
| "is_str v = False"

definition bad_items :: "pyval list \<Rightarrow> nat list" where
  "bad_items ws = filter (\<lambda>i. \<not> is_str (ws ! i)) [0 ..< length ws]"

text \<open>
  \<^verbatim>\<open>str(e)\<close> of the \<^verbatim>\<open>ValidationError\<close>: a heading with the number of errors, and
  for each bad item its place, the message with the error type, the \<^verbatim>\<open>repr\<close> of the
  input and the name of its type, and a line with the documentation URL. A
  \<^verbatim>\<open>repr\<close> of more than 50 bytes (in UTF-8) is shown as its first 25 and last 24
  bytes, cut at character boundaries, with \<^verbatim>\<open>...\<close> between them. The URL names
  the release line of the installed pydantic, which the repository does not pin;
  it is 2.11 here.
\<close>

definition pydantic_version :: string where
  "pydantic_version = ''2.11''"

definition utf8_width :: "char \<Rightarrow> nat" where
  "utf8_width c = (if (of_char c :: nat) < 128 then 1 else 2)"

fun take_bytes :: "nat \<Rightarrow> string \<Rightarrow> string" where
  "take_bytes n [] = []"
| "take_bytes n (c # cs) =
     (if utf8_width c \<le> n then c # take_bytes (n - utf8_width c) cs else [])"

definition truncate50 :: "string \<Rightarrow> string" where
  "truncate50 s =
     (if 50 < sum_list (map utf8_width s)
      then take_bytes 25 s @ ''...'' @ rev (take_bytes 24 (rev s))
      else s)"

definition validation_line :: "pyval list \<Rightarrow> nat \<Rightarrow> string" where
  "validation_line ws i =
     ''warnings.'' @ show_nat i @ [CHR 0x0A]
       @ ''  Input should be a valid string [type=string_type, input_value=''
       @ truncate50 (py_repr (ws ! i))
       @ '', input_type='' @ type_name (ws ! i) @ '']'' @ [CHR 0x0A]
       @ ''    For further information visit https://errors.pydantic.dev/''
       @ pydantic_version @ ''/v/string_type''"

definition validation_text :: "pyval list \<Rightarrow> string" where
  "validation_text ws =
     show_nat (length (bad_items ws)) @ '' validation error''
       @ (if length (bad_items ws) = 1 then [] else ''s'')
       @ '' for SearchResults'' @ [CHR 0x0A]
       @ join [CHR 0x0A] (map (validation_line ws) (bad_items ws))"

definition new_SearchResults ::
  "int \<Rightarrow> int \<Rightarrow> int \<Rightarrow> string list \<Rightarrow> pyval list \<Rightarrow> exn + SearchResults" where
  "new_SearchResults c p ps es ws =
     (if bad_items ws = []
      then Inr \<lparr>count = c, page = p, page_size = ps, sequence_ids = [],
                errors = es, warnings = map the_str ws\<rparr>
      else Inl (Exn ValidationError (validation_text ws)))"

text \<open>Lines 101 to 107 of the source: the \<^verbatim>\<open>errors\<close> list.\<close>

definition phrase_of :: "pyval \<Rightarrow> exn + pyval" where
  "phrase_of phrase_not_found =
     (case py_len phrase_not_found of
        Inl e \<Rightarrow> Inl e
      | Inr n \<Rightarrow> if n \<le> 100 then Inr phrase_not_found else slice100_plus_dots phrase_not_found)"

definition extract_errors :: "pyval \<Rightarrow> exn + string list" where
  "extract_errors data =
     (case py_get data ''ErrorList'' of
        Inl e \<Rightarrow> Inl e
      | Inr error_list \<Rightarrow>
          if truthy error_list then
            (case py_get error_list ''PhraseNotFound'' of
               Inl e \<Rightarrow> Inl e
             | Inr phrase_not_found \<Rightarrow>
                 if truthy phrase_not_found then
                   (case phrase_of phrase_not_found of
                      Inl e \<Rightarrow> Inl e
                    | Inr phrase \<Rightarrow> Inr ([] @ [''Phrase not found: '' @ py_str phrase]))
                 else Inr [])
          else Inr [])"

text \<open>Lines 109 to 114: the \<^verbatim>\<open>warnings\<close> list.\<close>

definition extract_warnings :: "pyval \<Rightarrow> exn + pyval list" where
  "extract_warnings data =
     (case py_get data ''WarningList'' of
        Inl e \<Rightarrow> Inl e
      | Inr warning_list \<Rightarrow>
          if truthy warning_list then
            (case py_get warning_list ''OutputMessage'' of
               Inl e \<Rightarrow> Inl e
             | Inr output_message \<Rightarrow>
                 if truthy output_message then Inr ([] @ [output_message]) else Inr [])
          else Inr [])"

text \<open>\<^verbatim>\<open>int(data.get(key, 0))\<close>.\<close>

definition int_field :: "pyval \<Rightarrow> string \<Rightarrow> exn + int" where
  "int_field data k =
     (case py_get_default data k (PInt 0) of Inl e \<Rightarrow> Inl e | Inr v \<Rightarrow> py_int v)"



definition missing_root :: exn where
  "missing_root = Exn ValueError ''Invalid response from NCBI: missing eSearchResult element''"

text \<open>
  \<^verbatim>\<open>_parse_search_results(xml)\<close>. The XML parser \<^verbatim>\<open>xmltodict.parse\<close> is a library
  outside the repository and is a parameter: it returns the parsed value or raises.
\<close>

definition parse_search_results :: "(string \<Rightarrow> exn + pyval) \<Rightarrow> string \<Rightarrow> exn + SearchResults" where
  "parse_search_results xmltodict_parse xml =
     (case xmltodict_parse xml of
        Inl e \<Rightarrow> Inl e
      | Inr parsed \<Rightarrow>
     (case py_get parsed ''eSearchResult'' of
        Inl e \<Rightarrow> Inl e
      | Inr data \<Rightarrow>
          if \<not> truthy data then Inl missing_root
          else
     (case extract_errors data of
        Inl e \<Rightarrow> Inl e
      | Inr errs \<Rightarrow>
     (case extract_warnings data of
        Inl e \<Rightarrow> Inl e
      | Inr warns \<Rightarrow>
     (case int_field data ''Count'' of
        Inl e \<Rightarrow> Inl e
      | Inr c \<Rightarrow>
     (case int_field data ''RetStart'' of
        Inl e \<Rightarrow> Inl e
      | Inr p \<Rightarrow>
     (case int_field data ''RetMax'' of
        Inl e \<Rightarrow> Inl e
      | Inr ps \<Rightarrow> new_SearchResults c p ps errs warns)))))))"

section \<open>Serialization\<close>

text \<open>
  \<^verbatim>\<open>results.model_dump_json()\<close> (pydantic): compact JSON, the fields in declaration
  order; in a string the double quote, the backslash and the control characters are
  escaped and every other character is written as it is.
\<close>

definition u00 :: "char \<Rightarrow> string" where
  "u00 c = [backslash] @ ''u00'' @ hex2 c"

definition short_escape :: "char \<Rightarrow> string option" where
  "short_escape c =
     (if c = dquote then Some [backslash, dquote]
      else if c = backslash then Some [backslash, backslash]
      else if c = CHR 0x08 then Some [backslash, CHR ''b'']
      else if c = CHR 0x09 then Some [backslash, CHR ''t'']
      else if c = CHR 0x0A then Some [backslash, CHR ''n'']
      else if c = CHR 0x0C then Some [backslash, CHR ''f'']
      else if c = CHR 0x0D then Some [backslash, CHR ''r'']
      else None)"

definition model_json_char :: "char \<Rightarrow> string" where
  "model_json_char c =
     (case short_escape c of
        Some e \<Rightarrow> e
      | None \<Rightarrow> if (of_char c :: nat) < 32 then u00 c else [c])"

definition model_json_str :: "string \<Rightarrow> string" where
  "model_json_str s = [dquote] @ concat (map model_json_char s) @ [dquote]"

definition model_json_strs :: "string list \<Rightarrow> string" where
  "model_json_strs xs = ''['' @ join '','' (map model_json_str xs) @ '']''"

definition model_json_key :: "string \<Rightarrow> string" where
  "model_json_key k = [dquote] @ k @ [dquote] @ '':''"

definition model_dump_json :: "SearchResults \<Rightarrow> string" where
  "model_dump_json r =
     ''{'' @ model_json_key ''count'' @ show_int (count r)
       @ '','' @ model_json_key ''page'' @ show_int (page r)
       @ '','' @ model_json_key ''page_size'' @ show_int (page_size r)
       @ '','' @ model_json_key ''sequence_ids'' @ model_json_strs (sequence_ids r)
       @ '','' @ model_json_key ''errors'' @ model_json_strs (errors r)
       @ '','' @ model_json_key ''warnings'' @ model_json_strs (warnings r)
       @ ''}''"

text \<open>
  \<^verbatim>\<open>json.dumps(v)\<close> with its defaults: \<^verbatim>\<open>", "\<close> and \<^verbatim>\<open>": "\<close> as separators, and
  every character outside the printable ASCII range escaped.
\<close>

definition json_char :: "char \<Rightarrow> string" where
  "json_char c =
     (case short_escape c of
        Some e \<Rightarrow> e
      | None \<Rightarrow> if (of_char c :: nat) < 32 \<or> 126 < (of_char c :: nat) then u00 c else [c])"

definition json_str :: "string \<Rightarrow> string" where
  "json_str s = [dquote] @ concat (map json_char s) @ [dquote]"

fun json_dumps :: "pyval \<Rightarrow> string"
  and json_items :: "pyval list \<Rightarrow> string list"
  and json_pairs :: "(string \<times> pyval) list \<Rightarrow> string list" where
  "json_dumps PNone = ''null''"
| "json_dumps (PStr s) = json_str s"
| "json_dumps (PInt n) = show_int n"
| "json_dumps (PDict kvs) = ''{'' @ join '', '' (json_pairs kvs) @ ''}''"
| "json_dumps (PList xs) = ''['' @ join '', '' (json_items xs) @ '']''"
| "json_items [] = []"
| "json_items (x # xs) = json_dumps x # json_items xs"
| "json_pairs [] = []"
| "json_pairs ((k, v) # kvs) = (json_str k @ '': '' @ json_dumps v) # json_pairs kvs"

text \<open>\<^verbatim>\<open>s.encode("utf-8")\<close>: the bytes of the text.\<close>

definition utf8_char :: "char \<Rightarrow> string" where
  "utf8_char c =
     (if (of_char c :: nat) < 128 then [c]
      else [char_of (192 + (of_char c :: nat) div 64), char_of (128 + (of_char c :: nat) mod 64)])"

definition encode_utf8 :: "string \<Rightarrow> string" where
  "encode_utf8 s = concat (map utf8_char s)"

section \<open>What an operation does: the trace of its calls\<close>

text \<open>
  An operation talks to three collaborators: the HTTP client (\<^verbatim>\<open>http.get\<close>), the
  process (\<^verbatim>\<open>begin_process\<close>, \<^verbatim>\<open>log\<close>, \<^verbatim>\<open>create_artifact\<close>) and the context
  (\<^verbatim>\<open>reply\<close>). Its behaviour is the list of these calls in order, and how it ends:
  by returning, or with an exception that leaves \<^verbatim>\<open>run\<close>.
\<close>

datatype meta_value =
    MStr string
  | MStrSet "string set"
  | MVal pyval

record artifact =
  mimetype :: string
  description :: string
  content :: "string option"
  uris :: "string list option"
  metadata :: "(string \<times> meta_value) list"

datatype event =
    BeginProcess string
  | Log string
  | HttpGet string
  | CreateArtifact artifact
  | Reply string

datatype outcome = Returned | Raised exn

text \<open>
  An HTTP response: \<^verbatim>\<open>status_code\<close> and \<^verbatim>\<open>text\<close>; \<^verbatim>\<open>is_success\<close> is httpx's
  property, a status from 200 to 299. The transport is a parameter: for a URL it
  gives a response or raises.
\<close>

record response =
  status_code :: int
  resp_text :: string

definition is_success :: "response \<Rightarrow> bool" where
  "is_success r = (200 \<le> status_code r \<and> status_code r \<le> 299)"

text \<open>The artifacts, the replies and the requested URLs of a trace, in order.\<close>

fun artifacts_of :: "event list \<Rightarrow> artifact list" where
  "artifacts_of [] = []"
| "artifacts_of (CreateArtifact a # evs) = a # artifacts_of evs"
| "artifacts_of (x # evs) = artifacts_of evs"

fun replies_of :: "event list \<Rightarrow> string list" where
  "replies_of [] = []"
| "replies_of (Reply t # evs) = t # replies_of evs"
| "replies_of (x # evs) = replies_of evs"

fun requests_of :: "event list \<Rightarrow> string list" where
  "requests_of [] = []"
| "requests_of (HttpGet u # evs) = u # requests_of evs"
| "requests_of (x # evs) = requests_of evs"

fun logs_of :: "event list \<Rightarrow> string list" where
  "logs_of [] = []"
| "logs_of (Log t # evs) = t # logs_of evs"
| "logs_of (x # evs) = logs_of evs"

text \<open>
  Collaborators for concrete runs: a transport that answers every request with the
  same response, and a parser that returns the same value, or raises the same
  exception, for every text.
\<close>

definition transport_returning :: "response \<Rightarrow> string \<Rightarrow> exn + response" where
  "transport_returning r url = Inr r"

definition parser_returning :: "pyval \<Rightarrow> string \<Rightarrow> exn + pyval" where
  "parser_returning v xml = Inr v"

definition parser_raising :: "exn \<Rightarrow> string \<Rightarrow> exn + pyval" where
  "parser_raising e xml = Inl e"

text \<open>\<^verbatim>\<open>d | e\<close> on dictionaries: the entries of \<^verbatim>\<open>e\<close> replace or extend those of \<^verbatim>\<open>d\<close>.\<close>

fun dict_set :: "('k \<times> 'v) list \<Rightarrow> 'k \<Rightarrow> 'v \<Rightarrow> ('k \<times> 'v) list" where
  "dict_set [] k v = [(k, v)]"
| "dict_set ((k', v') # kvs) k v = (if k' = k then (k', v) # kvs else (k', v') # dict_set kvs k v)"

fun dict_union :: "('k \<times> 'v) list \<Rightarrow> ('k \<times> 'v) list \<Rightarrow> ('k \<times> 'v) list" where
  "dict_union d [] = d"
| "dict_union d ((k, v) # e) = dict_union (dict_set d k v) e"

section \<open>The Search Operation (find_sequence_records.run)\<close>

record find_Parameters =
  search_terms :: string

text \<open>\<^verbatim>\<open>s.replace(" ", "+")\<close>.\<close>

definition replace_spaces :: "string \<Rightarrow> string" where
  "replace_spaces s = map (\<lambda>c. if c = CHR '' '' then CHR ''+'' else c) s"

definition search_url_of :: "string \<Rightarrow> string" where
  "search_url_of terms =
     ''https://eutils.ncbi.nlm.nih.gov/entrez/eutils/esearch.fcgi?db=nuccore&term='' @ terms"

definition startswith :: "string \<Rightarrow> string \<Rightarrow> bool" where
  "startswith s p = prefix p s"

text \<open>Lines 59 to 64: the log lines of an empty result.\<close>

definition zero_count_logs :: "SearchResults \<Rightarrow> event list" where
  "zero_count_logs results =
     (if count results = 0 then
        [Log ''No matching records found in the NCBI Nucleotide database.'']
        @ (if errors results \<noteq> [] then [Log (''NCBI reported: '' @ join '', '' (errors results))] else [])
        @ (if warnings results \<noteq> [] then [Log (''Note: '' @ join '', '' (warnings results))] else [])
      else [])"

text \<open>Lines 66 to 75: the artifact, built from the parameters as they are at that point.\<close>

definition search_artifact :: "find_Parameters \<Rightarrow> string \<Rightarrow> SearchResults \<Rightarrow> artifact" where
  "search_artifact parameters search_url results =
     \<lparr>mimetype = ''application/json'',
      description = ''Nucleotide IDs for sequence records matching '' @ [dquote]
                      @ search_terms parameters @ [dquote],
      content = Some (encode_utf8 (model_dump_json results)),
      uris = None,
      metadata = [(''data_source'', MStr ''Nucleotide database''),
                  (''api_search_terms'', MStrSet {search_terms parameters}),
                  (''derived_from'', MStr search_url)]\<rparr>"

definition advisory_text :: string where
  "advisory_text =
     ''The search failed with the error: '' @ quoted ''Phrase not found''
       @ ''. This means the search terms did not match any indexed metadata fields. ''
       @ ''The agent'' @ [apostrophe] @ ''s capabilities are limited to: (1) find_sequence_records - searches text metadata like organism names, titles, and authors; ''
       @ ''(2) get_sequence_record - retrieves a record by known accession number.''"

text \<open>
  \<^verbatim>\<open>run(context, parameters)\<close>. The result is the trace, the outcome, and the
  parameters object as the call leaves it (line 41 assigns to its field).
\<close>

definition run_find ::
  "(string \<Rightarrow> exn + response) \<Rightarrow> (string \<Rightarrow> exn + pyval) \<Rightarrow> find_Parameters
     \<Rightarrow> event list \<times> outcome \<times> find_Parameters" where
  "run_find http_get xmltodict_parse parameters0 =
     (let parameters = parameters0\<lparr>search_terms := replace_spaces (search_terms parameters0)\<rparr>;
          search_url = search_url_of (search_terms parameters);
          ev = [BeginProcess ''Searching the NCBI Nucleotide database'',
                Log (''Sending GET request to '' @ search_url),
                HttpGet search_url]
      in case http_get search_url of
           Inl e \<Rightarrow> (ev, Raised e, parameters)
         | Inr response \<Rightarrow>
             if \<not> is_success response then
               (ev @ [Log (''Response code: '' @ show_int (status_code response))], Returned, parameters)
             else
               (case parse_search_results xmltodict_parse (resp_text response) of
                  Inl e \<Rightarrow>
                    if is_DefusedXmlException (exn_cls e) then
                      (ev @ [Log (''Failed to process search results: '' @ exn_str e)], Returned, parameters)
                    else if is_ValueError (exn_cls e) then
                      (ev @ [Log (exn_str e)], Returned, parameters)
                    else (ev, Raised e, parameters)
                | Inr results \<Rightarrow>
                    (ev @ zero_count_logs results
                        @ [CreateArtifact (search_artifact parameters search_url results)]
                        @ (if list_ex (\<lambda>error. startswith error ''Phrase not found'') (errors results)
                           then [Reply advisory_text] else []),
                     Returned, parameters)))"

section \<open>The Record-Fetch Operation (get_sequence_record.run)\<close>

record get_Parameters =
  accession_number :: string

definition efetch_url :: "string \<Rightarrow> string \<Rightarrow> string" where
  "efetch_url acc retmode =
     ''https://eutils.ncbi.nlm.nih.gov/entrez/eutils/efetch.fcgi?db=nuccore&id='' @ acc
       @ ''&rettype=gb&retmode='' @ retmode"

definition portal_link_of :: "pyval \<Rightarrow> string" where
  "portal_link_of record_primary_accession =
     ''https://www.ncbi.nlm.nih.gov/nuccore/'' @ py_str record_primary_accession"

definition final_text :: string where
  "final_text =
     ''The two artifacts contain the same data but in different formats. The flat file format is more''
       @ '' human-friendly, while the JSON format is more machine-friendly. The JSON format was converted from''
       @ '' the original XML returned by the API to make it easier to process.''"

definition portal_sentence :: "string \<Rightarrow> string" where
  "portal_sentence portal_link =
     '' The record is also available in the NCBI Nucleotide portal at '' @ portal_link"

definition unbound_portal_link :: exn where
  "unbound_portal_link =
     Exn UnboundLocalError (''cannot access local variable '' @ quoted ''portal_link''
                              @ '' where it is not associated with a value'')"

text \<open>
  Lines 52 to 60: the metadata. \<^verbatim>\<open>portal_link\<close> is assigned only inside the first
  \<^verbatim>\<open>if\<close>; \<^verbatim>\<open>None\<close> below stands for the local variable that has no value.
\<close>

definition portal_link_var :: "pyval \<Rightarrow> string option" where
  "portal_link_var record_primary_accession =
     (if truthy record_primary_accession then Some (portal_link_of record_primary_accession) else None)"

definition record_metadata :: "pyval \<Rightarrow> pyval \<Rightarrow> (string \<times> meta_value) list" where
  "record_metadata record_primary_accession record_accession_version =
     (let metadata = [(''data_source'', MStr ''Nucleotide'')];
          metadata = (if truthy record_primary_accession
                      then dict_union metadata
                             [(''link_to_view_record_on_ncbi_portal'',
                               MStr (portal_link_of record_primary_accession))]
                      else metadata);
          metadata = (if truthy record_primary_accession
                      then dict_union metadata [(''primary_accession'', MVal record_primary_accession)]
                      else metadata);
          metadata = (if truthy record_accession_version
                      then dict_union metadata [(''accession_version'', MVal record_accession_version)]
                      else metadata)
      in metadata)"

text \<open>
  Lines 62 to 93, after the three fields have been read: the JSON artifact, the
  second request, the flat-file artifact and the final reply. Reading
  \<^verbatim>\<open>portal_link\<close> in the reply raises \<^verbatim>\<open>UnboundLocalError\<close> when it has no value.
\<close>

definition run_get_rest ::
  "(string \<Rightarrow> exn + response) \<Rightarrow> get_Parameters \<Rightarrow> string \<Rightarrow> event list \<Rightarrow> pyval
     \<Rightarrow> pyval \<Rightarrow> pyval \<Rightarrow> pyval \<Rightarrow> event list \<times> outcome" where
  "run_get_rest http_get parameters xml_url ev json_record
       record_definition record_primary_accession record_accession_version =
     (let metadata = record_metadata record_primary_accession record_accession_version;
          ev = ev @ (if truthy record_primary_accession
                     then [Log (''An online version of the record is available at ''
                                  @ portal_link_of record_primary_accession)]
                     else []);
          ev = ev @ [CreateArtifact
                       \<lparr>mimetype = ''application/json'',
                        description = ''JSON nucleotide sequence record '' @ accession_number parameters
                                        @ '': '' @ py_str record_definition,
                        content = Some (encode_utf8 (json_dumps json_record)),
                        uris = None,
                        metadata = dict_union metadata [(''derived_from'', MStr xml_url)]\<rparr>];
          flat_file_url = efetch_url (accession_number parameters) ''text'';
          ev = ev @ [Log (''Retrieving flat file nucleotide record from '' @ flat_file_url),
                     HttpGet flat_file_url]
      in case http_get flat_file_url of
           Inl e \<Rightarrow> (ev, Raised e)
         | Inr response \<Rightarrow>
             if \<not> is_success response then
               (ev @ [Log (''Response code: '' @ show_int (status_code response)),
                      Reply ''Failed to retrieve flat file record''], Returned)
             else
               (let ev = ev @ [CreateArtifact
                                 \<lparr>mimetype = ''text/plain'',
                                  description = ''Flat file nucleotide sequence record ''
                                                  @ accession_number parameters
                                                  @ '': '' @ py_str record_definition,
                                  content = None,
                                  uris = Some [flat_file_url],
                                  metadata = metadata\<rparr>]
                in case portal_link_var record_primary_accession of
                     None \<Rightarrow> (ev, Raised unbound_portal_link)
                   | Some portal_link \<Rightarrow>
                       (ev @ [Reply (final_text
                                      @ (if portal_link \<noteq> [] then portal_sentence portal_link else []))],
                        Returned)))"

text \<open>\<^verbatim>\<open>run(context, parameters)\<close>.\<close>

definition run_get ::
  "(string \<Rightarrow> exn + response) \<Rightarrow> (string \<Rightarrow> exn + pyval) \<Rightarrow> get_Parameters
     \<Rightarrow> event list \<times> outcome" where
  "run_get http_get xmltodict_parse parameters =
     (let xml_url = efetch_url (accession_number parameters) ''xml'';
          ev = [BeginProcess ''Searching the NCBI Nucleotide database'',
                Log (''Retrieving XML nucleotide record from '' @ xml_url),
                HttpGet xml_url]
      in case http_get xml_url of
           Inl e \<Rightarrow> (ev, Raised e)
         | Inr response \<Rightarrow>
             if \<not> is_success response then
               (ev @ [Log (''Response code: '' @ show_int (status_code response)),
                      Reply ''Failed to retrieve XML record''], Returned)
             else
               (let ev = ev @ [Log ''Converting XML record to JSON'']
                in case xmltodict_parse (resp_text response) of
                     Inl e \<Rightarrow> (ev, Raised e)
                   | Inr json_record \<Rightarrow>
               (case py_get_default json_record ''GBSet'' (PDict []) of
                     Inl e \<Rightarrow> (ev, Raised e)
                   | Inr gbset \<Rightarrow>
               (case py_get_default gbset ''GBSeq'' (PDict []) of
                     Inl e \<Rightarrow> (ev, Raised e)
                   | Inr gbseq \<Rightarrow>
               (case py_get gbseq ''GBSeq_definition'' of
                     Inl e \<Rightarrow> (ev, Raised e)
                   | Inr record_definition \<Rightarrow>
               (case py_get gbseq ''GBSeq_primary-accession'' of
                     Inl e \<Rightarrow> (ev, Raised e)
                   | Inr record_primary_accession \<Rightarrow>
               (case py_get gbseq ''GBSeq_accession-version'' of
                     Inl e \<Rightarrow> (ev, Raised e)
                   | Inr record_accession_version \<Rightarrow>
                       run_get_rest http_get parameters xml_url ev json_record
                         record_definition record_primary_accession record_accession_version)))))))"

section \<open>Properties\<close>

subsection \<open>Traces\<close>

lemma artifacts_of_append [simp]: "artifacts_of (xs @ ys) = artifacts_of xs @ artifacts_of ys"
  by (induction xs rule: artifacts_of.induct) simp_all

lemma replies_of_append [simp]: "replies_of (xs @ ys) = replies_of xs @ replies_of ys"
  by (induction xs rule: replies_of.induct) simp_all

lemma requests_of_append [simp]: "requests_of (xs @ ys) = requests_of xs @ requests_of ys"
  by (induction xs rule: requests_of.induct) simp_all

lemma logs_of_append [simp]: "logs_of (xs @ ys) = logs_of xs @ logs_of ys"
  by (induction xs rule: logs_of.induct) simp_all

lemma zero_count_logs_only_logs [simp]:
  "artifacts_of (zero_count_logs r) = []"
  "replies_of (zero_count_logs r) = []"
  "requests_of (zero_count_logs r) = []"
  by (simp_all add: zero_count_logs_def)

subsection \<open>The Search Operation: transport failure\<close>

text \<open>
  C9. When the transport reports a status that is not a success, the Search Operation
  logs the status code and returns: the trace is the process start, the request log
  line, the request and the line \<^verbatim>\<open>Response code: <status>\<close>; it has no artifact and
  no reply, and the call returns instead of raising.
\<close>

theorem search_transport_failure:
  assumes "http_get (search_url_of (replace_spaces (search_terms p))) = Inr r"
    and "\<not> is_success r"
  shows "run_find http_get xmltodict_parse p =
           ([BeginProcess ''Searching the NCBI Nucleotide database'',
             Log (''Sending GET request to '' @ search_url_of (replace_spaces (search_terms p))),
             HttpGet (search_url_of (replace_spaces (search_terms p))),
             Log (''Response code: '' @ show_int (status_code r))],
            Returned, p\<lparr>search_terms := replace_spaces (search_terms p)\<rparr>)
         \<and> artifacts_of (fst (run_find http_get xmltodict_parse p)) = []
         \<and> replies_of (fst (run_find http_get xmltodict_parse p)) = []
         \<and> fst (snd (run_find http_get xmltodict_parse p)) = Returned"
  using assms by (simp add: run_find_def Let_def)

theorem search_transport_failure_witness:
  "\<not> is_success \<lparr>status_code = 503, resp_text = []\<rparr>
   \<and> run_find (transport_returning \<lparr>status_code = 503, resp_text = []\<rparr>)
        (parser_raising (Exn ExpatError [])) \<lparr>search_terms = ''Rattus rattus''\<rparr> =
       ([BeginProcess ''Searching the NCBI Nucleotide database'',
         Log ''Sending GET request to https://eutils.ncbi.nlm.nih.gov/entrez/eutils/esearch.fcgi?db=nuccore&term=Rattus+rattus'',
         HttpGet ''https://eutils.ncbi.nlm.nih.gov/entrez/eutils/esearch.fcgi?db=nuccore&term=Rattus+rattus'',
         Log ''Response code: 503''],
        Returned, \<lparr>search_terms = ''Rattus+rattus''\<rparr>)"
proof -
  have h1: "transport_returning \<lparr>status_code = 503, resp_text = []\<rparr>
              (search_url_of (replace_spaces (search_terms \<lparr>search_terms = ''Rattus rattus''\<rparr>)))
            = Inr \<lparr>status_code = 503, resp_text = []\<rparr>"
    by (simp add: transport_returning_def)
  have h2: "\<not> is_success \<lparr>status_code = 503, resp_text = []\<rparr>"
    by (simp add: is_success_def)
  have s: "show_int 503 = ''503''" by code_simp
  show ?thesis
    using search_transport_failure
            [where http_get = "transport_returning \<lparr>status_code = 503, resp_text = []\<rparr>"
               and p = "\<lparr>search_terms = ''Rattus rattus''\<rparr>"
               and xmltodict_parse = "parser_raising (Exn ExpatError [])", OF h1 h2] h2 s
    by (simp add: replace_spaces_def search_url_of_def)
qed

subsection \<open>The Search Operation: text that is not well-formed XML\<close>

text \<open>
  C3. The specification says that a response text that is not well-formed XML makes the Search
  Operation log the reason and return without an artifact and without an exception
  reaching the caller. The handlers of \<^verbatim>\<open>run\<close> catch \<^verbatim>\<open>DefusedXmlException\<close> and
  \<^verbatim>\<open>ValueError\<close>; the parser in use, \<^verbatim>\<open>xmltodict.parse\<close>, is built on expat and
  reports such a text with \<^verbatim>\<open>ExpatError\<close>, which is neither. At the unclosed text
  \<^verbatim>\<open><eSearchResult>\<close> the exception leaves \<^verbatim>\<open>run\<close> and no reason is logged.
\<close>

theorem search_malformed_xml_propagates:
  "run_find (transport_returning \<lparr>status_code = 200, resp_text = ''<eSearchResult>''\<rparr>)
     (parser_raising (Exn ExpatError ''no element found: line 1, column 15''))
     \<lparr>search_terms = ''Rattus rattus''\<rparr> =
   ([BeginProcess ''Searching the NCBI Nucleotide database'',
     Log ''Sending GET request to https://eutils.ncbi.nlm.nih.gov/entrez/eutils/esearch.fcgi?db=nuccore&term=Rattus+rattus'',
     HttpGet ''https://eutils.ncbi.nlm.nih.gov/entrez/eutils/esearch.fcgi?db=nuccore&term=Rattus+rattus''],
    Raised (Exn ExpatError ''no element found: line 1, column 15''),
    \<lparr>search_terms = ''Rattus+rattus''\<rparr>)"
  by code_simp

text \<open>
  What the two handlers do catch: any exception of the normalizer that is a
  \<^verbatim>\<open>ValueError\<close> ends the operation with one more log line and no artifact.
\<close>

lemma search_value_error_handled:
  assumes "http_get (search_url_of (replace_spaces (search_terms p))) = Inr r"
    and "is_success r"
    and "parse_search_results xmltodict_parse (resp_text r) = Inl e"
    and "is_ValueError (exn_cls e)"
  shows "fst (snd (run_find http_get xmltodict_parse p)) = Returned
         \<and> artifacts_of (fst (run_find http_get xmltodict_parse p)) = []
         \<and> replies_of (fst (run_find http_get xmltodict_parse p)) = []
         \<and> logs_of (fst (run_find http_get xmltodict_parse p)) =
             [''Sending GET request to '' @ search_url_of (replace_spaces (search_terms p)),
              (if is_DefusedXmlException (exn_cls e)
               then ''Failed to process search results: '' @ exn_str e else exn_str e)]"
  using assms by (simp add: run_find_def Let_def)

lemma search_other_exception_propagates:
  assumes "http_get (search_url_of (replace_spaces (search_terms p))) = Inr r"
    and "is_success r"
    and "parse_search_results xmltodict_parse (resp_text r) = Inl e"
    and "\<not> is_ValueError (exn_cls e)"
  shows "fst (snd (run_find http_get xmltodict_parse p)) = Raised e"
  using assms by (cases e; cases "exn_cls e") (simp_all add: run_find_def Let_def)

subsection \<open>The Record-Fetch Operation: the final reply\<close>

text \<open>
  C4. The specification says that whenever both requests succeed a final reply is sent, with the
  portal sentence exactly when a primary accession was found. For a record without
  \<^verbatim>\<open>GBSeq_primary-accession\<close> the local variable \<^verbatim>\<open>portal_link\<close> was never assigned,
  so building the reply raises \<^verbatim>\<open>UnboundLocalError\<close>: both artifacts have been
  created, no reply is sent, and the exception leaves \<^verbatim>\<open>run\<close>.
\<close>

theorem fetch_without_accession_crashes:
  "snd (run_get
          (transport_returning
             \<lparr>status_code = 200,
              resp_text = ''<GBSet><GBSeq><GBSeq_definition>d</GBSeq_definition></GBSeq></GBSet>''\<rparr>)
          (parser_returning (PDict [(''GBSet'', PDict [(''GBSeq'', PDict [(''GBSeq_definition'', PStr ''d'')])])]))
          \<lparr>accession_number = ''JQ814272''\<rparr>)
     = Raised unbound_portal_link
   \<and> replies_of (fst (run_get
          (transport_returning
             \<lparr>status_code = 200,
              resp_text = ''<GBSet><GBSeq><GBSeq_definition>d</GBSeq_definition></GBSeq></GBSet>''\<rparr>)
          (parser_returning (PDict [(''GBSet'', PDict [(''GBSeq'', PDict [(''GBSeq_definition'', PStr ''d'')])])]))
          \<lparr>accession_number = ''JQ814272''\<rparr>)) = []
   \<and> map mimetype (artifacts_of (fst (run_get
          (transport_returning
             \<lparr>status_code = 200,
              resp_text = ''<GBSet><GBSeq><GBSeq_definition>d</GBSeq_definition></GBSeq></GBSet>''\<rparr>)
          (parser_returning (PDict [(''GBSet'', PDict [(''GBSeq'', PDict [(''GBSeq_definition'', PStr ''d'')])])]))
          \<lparr>accession_number = ''JQ814272''\<rparr>))) = [''application/json'', ''text/plain'']"
  by code_simp

text \<open>
  The two cases in general, for a document with the \<^verbatim>\<open>GBSet\<close> and \<^verbatim>\<open>GBSeq\<close>
  mappings and two successful requests: with a primary accession the final reply is
  sent and ends with the portal sentence; without one the reply is never sent. The
  two artifacts are created in both cases.
\<close>

lemma portal_link_nonempty: "portal_link_of a \<noteq> []"
  by (simp add: portal_link_of_def)

lemma run_get_both_succeed:
  assumes "http_get (efetch_url (accession_number p) ''xml'') = Inr r1"
    and "is_success r1"
    and "xmltodict_parse (resp_text r1) = Inr (PDict doc)"
    and "map_of doc ''GBSet'' = Some (PDict gbset)"
    and "map_of gbset ''GBSeq'' = Some (PDict gbseq)"
    and "http_get (efetch_url (accession_number p) ''text'') = Inr r2"
    and "is_success r2"
  shows "(truthy (case map_of gbseq ''GBSeq_primary-accession'' of None \<Rightarrow> PNone | Some a \<Rightarrow> a) \<longrightarrow>
            snd (run_get http_get xmltodict_parse p) = Returned
            \<and> replies_of (fst (run_get http_get xmltodict_parse p)) =
                [final_text @ portal_sentence (portal_link_of
                   (case map_of gbseq ''GBSeq_primary-accession'' of None \<Rightarrow> PNone | Some a \<Rightarrow> a))])
         \<and> (\<not> truthy (case map_of gbseq ''GBSeq_primary-accession'' of None \<Rightarrow> PNone | Some a \<Rightarrow> a) \<longrightarrow>
            snd (run_get http_get xmltodict_parse p) = Raised unbound_portal_link
            \<and> replies_of (fst (run_get http_get xmltodict_parse p)) = [])
         \<and> map mimetype (artifacts_of (fst (run_get http_get xmltodict_parse p))) =
             [''application/json'', ''text/plain'']"
  using assms
  by (simp add: run_get_def run_get_rest_def Let_def py_get_def portal_link_var_def
        portal_link_nonempty)

subsection \<open>The normalizer: the root element\<close>

text \<open>
  C1. When the parsed document has no \<^verbatim>\<open>eSearchResult\<close> entry, the normalizer
  raises the missing-root \<^verbatim>\<open>ValueError\<close> and returns no result; a Search Operation
  that received this text with a success status then logs the message and returns,
  with no artifact in its trace.
\<close>

theorem missing_root_no_artifact:
  assumes "xmltodict_parse xml = Inr (PDict kvs)"
    and "map_of kvs ''eSearchResult'' = None"
  shows "parse_search_results xmltodict_parse xml = Inl missing_root
         \<and> (\<forall>http_get p r.
               http_get (search_url_of (replace_spaces (search_terms p))) = Inr r
               \<and> is_success r \<and> resp_text r = xml \<longrightarrow>
                 artifacts_of (fst (run_find http_get xmltodict_parse p)) = []
                 \<and> fst (snd (run_find http_get xmltodict_parse p)) = Returned
                 \<and> logs_of (fst (run_find http_get xmltodict_parse p)) =
                     [''Sending GET request to '' @ search_url_of (replace_spaces (search_terms p)),
                      ''Invalid response from NCBI: missing eSearchResult element''])"
proof -
  have a: "parse_search_results xmltodict_parse xml = Inl missing_root"
    using assms by (simp add: parse_search_results_def py_get_def)
  show ?thesis
    using a by (simp add: run_find_def Let_def missing_root_def)
qed

theorem missing_root_no_artifact_witness:
  "parser_returning (PDict [(''GBSet'', PNone)]) ''<GBSet/>'' = Inr (PDict [(''GBSet'', PNone)])
   \<and> map_of [(''GBSet'', PNone)] ''eSearchResult'' = None
   \<and> is_success \<lparr>status_code = 200, resp_text = ''<GBSet/>''\<rparr>
   \<and> parse_search_results (parser_returning (PDict [(''GBSet'', PNone)])) ''<GBSet/>'' = Inl missing_root
   \<and> artifacts_of (fst (run_find (transport_returning \<lparr>status_code = 200, resp_text = ''<GBSet/>''\<rparr>)
                            (parser_returning (PDict [(''GBSet'', PNone)]))
                            \<lparr>search_terms = ''Rattus rattus''\<rparr>)) = []
   \<and> fst (snd (run_find (transport_returning \<lparr>status_code = 200, resp_text = ''<GBSet/>''\<rparr>)
                            (parser_returning (PDict [(''GBSet'', PNone)]))
                            \<lparr>search_terms = ''Rattus rattus''\<rparr>)) = Returned"
proof -
  have h1: "parser_returning (PDict [(''GBSet'', PNone)]) ''<GBSet/>'' = Inr (PDict [(''GBSet'', PNone)])"
    by (simp add: parser_returning_def)
  have h2: "map_of [(''GBSet'', PNone)] ''eSearchResult'' = None"
    by simp
  have h3: "is_success \<lparr>status_code = 200, resp_text = ''<GBSet/>''\<rparr>"
    by (simp add: is_success_def)
  have h4: "transport_returning \<lparr>status_code = 200, resp_text = ''<GBSet/>''\<rparr>
              (search_url_of (replace_spaces (search_terms \<lparr>search_terms = ''Rattus rattus''\<rparr>)))
            = Inr \<lparr>status_code = 200, resp_text = ''<GBSet/>''\<rparr>"
    by (simp add: transport_returning_def)
  note t = missing_root_no_artifact [where xmltodict_parse = "parser_returning (PDict [(''GBSet'', PNone)])"
                                        and xml = "''<GBSet/>''" and kvs = "[(''GBSet'', PNone)]", OF h1 h2]
  from t have a: "parse_search_results (parser_returning (PDict [(''GBSet'', PNone)])) ''<GBSet/>'' = Inl missing_root"
    by blast
  from t h3 h4 have b:
    "artifacts_of (fst (run_find (transport_returning \<lparr>status_code = 200, resp_text = ''<GBSet/>''\<rparr>)
                            (parser_returning (PDict [(''GBSet'', PNone)]))
                            \<lparr>search_terms = ''Rattus rattus''\<rparr>)) = []
     \<and> fst (snd (run_find (transport_returning \<lparr>status_code = 200, resp_text = ''<GBSet/>''\<rparr>)
                            (parser_returning (PDict [(''GBSet'', PNone)]))
                            \<lparr>search_terms = ''Rattus rattus''\<rparr>)) = Returned"
    by (metis response.select_convs(2))
  show ?thesis using h1 h2 h3 a b by blast
qed




subsection \<open>The Record-Fetch Operation: failure of the XML request\<close>

text \<open>
  C2. When the XML request comes back with a status that is not a success, the
  Record-Fetch Operation logs the status code, sends the one reply
  \<^verbatim>\<open>Failed to retrieve XML record\<close>, creates no artifact and returns; the only request
  in its trace is the XML one, so the flat-text URL is never requested.
\<close>

theorem fetch_xml_failure:
  assumes "http_get (efetch_url (accession_number p) ''xml'') = Inr r"
    and "\<not> is_success r"
  shows "run_get http_get xmltodict_parse p =
           ([BeginProcess ''Searching the NCBI Nucleotide database'',
             Log (''Retrieving XML nucleotide record from '' @ efetch_url (accession_number p) ''xml''),
             HttpGet (efetch_url (accession_number p) ''xml''),
             Log (''Response code: '' @ show_int (status_code r)),
             Reply ''Failed to retrieve XML record''],
            Returned)
         \<and> logs_of (fst (run_get http_get xmltodict_parse p)) =
             [''Retrieving XML nucleotide record from '' @ efetch_url (accession_number p) ''xml'',
              ''Response code: '' @ show_int (status_code r)]
         \<and> replies_of (fst (run_get http_get xmltodict_parse p)) = [''Failed to retrieve XML record'']
         \<and> artifacts_of (fst (run_get http_get xmltodict_parse p)) = []
         \<and> requests_of (fst (run_get http_get xmltodict_parse p)) = [efetch_url (accession_number p) ''xml'']
         \<and> efetch_url (accession_number p) ''text'' \<notin> set (requests_of (fst (run_get http_get xmltodict_parse p)))"
  using assms by (simp add: run_get_def Let_def efetch_url_def)

theorem fetch_xml_failure_witness:
  "\<not> is_success \<lparr>status_code = 400, resp_text = []\<rparr>
   \<and> run_get (transport_returning \<lparr>status_code = 400, resp_text = []\<rparr>)
        (parser_raising (Exn ExpatError [])) \<lparr>accession_number = ''JQ814272''\<rparr> =
       ([BeginProcess ''Searching the NCBI Nucleotide database'',
         Log ''Retrieving XML nucleotide record from https://eutils.ncbi.nlm.nih.gov/entrez/eutils/efetch.fcgi?db=nuccore&id=JQ814272&rettype=gb&retmode=xml'',
         HttpGet ''https://eutils.ncbi.nlm.nih.gov/entrez/eutils/efetch.fcgi?db=nuccore&id=JQ814272&rettype=gb&retmode=xml'',
         Log ''Response code: 400'',
         Reply ''Failed to retrieve XML record''],
        Returned)"
proof -
  have h1: "transport_returning \<lparr>status_code = 400, resp_text = []\<rparr>
              (efetch_url (accession_number \<lparr>accession_number = ''JQ814272''\<rparr>) ''xml'')
            = Inr \<lparr>status_code = 400, resp_text = []\<rparr>"
    by (simp add: transport_returning_def)
  have h2: "\<not> is_success \<lparr>status_code = 400, resp_text = []\<rparr>"
    by (simp add: is_success_def)
  have s: "show_int 400 = ''400''" by code_simp
  show ?thesis
    using fetch_xml_failure
            [where http_get = "transport_returning \<lparr>status_code = 400, resp_text = []\<rparr>"
               and p = "\<lparr>accession_number = ''JQ814272''\<rparr>"
               and xmltodict_parse = "parser_raising (Exn ExpatError [])", OF h1 h2] h2 s
    by (simp add: efetch_url_def)
qed

subsection \<open>The normalizer: count, page and page size\<close>







subsection \<open>The normalizer: the phrase that was not found\<close>

lemma get_str_truthy:
  assumes "py_get d k = Inr (PStr s)" and "s \<noteq> []"
  shows "truthy d"
  using assms by (cases d) (auto simp: py_get_def split: option.splits)

text \<open>
  One \<^verbatim>\<open>PhraseNotFound\<close> with text is parsed to a non-empty string. The error list
  of the normalizer is then exactly one string \<^verbatim>\<open>Phrase not found: <phrase>\<close>,
  where the phrase is the text itself when it has at most 100 characters, and
  otherwise its first 100 characters followed by \<^verbatim>\<open>...\<close>; every result the
  normalizer returns for such a document has this error list.
\<close>

lemma phrase_not_found_error:
  assumes "py_get data ''ErrorList'' = Inr error_list"
    and "py_get error_list ''PhraseNotFound'' = Inr (PStr s)"
    and "s \<noteq> []"
  shows "extract_errors data =
           Inr [''Phrase not found: '' @ (if length s \<le> 100 then s else take 100 s @ ''...'')]
         \<and> (\<forall>xmltodict_parse xml parsed r.
               xmltodict_parse xml = Inr parsed
               \<and> py_get parsed ''eSearchResult'' = Inr data
               \<and> parse_search_results xmltodict_parse xml = Inr r \<longrightarrow>
                 errors r = [''Phrase not found: '' @ (if length s \<le> 100 then s else take 100 s @ ''...'')])"
proof -
  have t: "truthy error_list"
    using assms(2,3) by (rule get_str_truthy)
  have e: "extract_errors data =
             Inr [''Phrase not found: '' @ (if length s \<le> 100 then s else take 100 s @ ''...'')]"
    using assms t by (simp add: extract_errors_def phrase_of_def)
  have "errors r = [''Phrase not found: '' @ (if length s \<le> 100 then s else take 100 s @ ''...'')]"
    if "xmltodict_parse xml = Inr parsed" "py_get parsed ''eSearchResult'' = Inr data"
       "parse_search_results xmltodict_parse xml = Inr r"
    for xmltodict_parse xml parsed r
    using that e
    by (auto simp: parse_search_results_def new_SearchResults_def split: sum.splits if_splits)
  with e show ?thesis by blast
qed

lemma phrase_not_found_error_example:
  "py_get (PDict [(''Count'', PStr ''0''),
                  (''ErrorList'', PDict [(''PhraseNotFound'', PStr (replicate 103 (CHR ''q'')))])])
          ''ErrorList''
     = Inr (PDict [(''PhraseNotFound'', PStr (replicate 103 (CHR ''q'')))])
   \<and> py_get (PDict [(''PhraseNotFound'', PStr (replicate 103 (CHR ''q'')))]) ''PhraseNotFound''
     = Inr (PStr (replicate 103 (CHR ''q'')))
   \<and> replicate 103 (CHR ''q'') \<noteq> []
   \<and> extract_errors (PDict [(''Count'', PStr ''0''),
                  (''ErrorList'', PDict [(''PhraseNotFound'', PStr (replicate 103 (CHR ''q'')))])])
     = Inr [''Phrase not found: '' @ replicate 100 (CHR ''q'') @ ''...'']
   \<and> map_sum exn_cls errors
        (parse_search_results
           (parser_returning
              (PDict [(''eSearchResult'',
                       PDict [(''Count'', PStr ''0''),
                              (''ErrorList'',
                               PDict [(''PhraseNotFound'', PStr (replicate 103 (CHR ''q'')))])])]))
           (''<eSearchResult><Count>0</Count><ErrorList><PhraseNotFound>''
              @ replicate 103 (CHR ''q'') @ ''</PhraseNotFound></ErrorList></eSearchResult>''))
     = Inr [''Phrase not found: '' @ replicate 100 (CHR ''q'') @ ''...'']"
proof -
  let ?s = "replicate 103 (CHR ''q'')"
  let ?el = "PDict [(''PhraseNotFound'', PStr ?s)]"
  let ?data = "PDict [(''Count'', PStr ''0''), (''ErrorList'', ?el)]"
  let ?P = "parser_returning (PDict [(''eSearchResult'', ?data)])"
  let ?X = "''<eSearchResult><Count>0</Count><ErrorList><PhraseNotFound>''
              @ ?s @ ''</PhraseNotFound></ErrorList></eSearchResult>''"
  let ?e = "[''Phrase not found: '' @ (if length ?s \<le> 100 then ?s else take 100 ?s @ ''...'')]"
  have h1: "py_get ?data ''ErrorList'' = Inr ?el" by (simp add: py_get_def)
  have h2: "py_get ?el ''PhraseNotFound'' = Inr (PStr ?s)" by (simp add: py_get_def)
  have h3: "?s \<noteq> []" by simp
  note t = phrase_not_found_error [where data = ?data and error_list = ?el and s = ?s, OF h1 h2 h3]
  from t have a: "extract_errors ?data = Inr ?e" by blast
  have i: "py_int (PStr ''0'') = Inr 0" by code_simp
  have g1: "?P ?X = Inr (PDict [(''eSearchResult'', ?data)])"
    by (simp add: parser_returning_def)
  have g2: "py_get (PDict [(''eSearchResult'', ?data)]) ''eSearchResult'' = Inr ?data"
    by (simp add: py_get_def)
  have g3: "parse_search_results ?P ?X =
              Inr \<lparr>count = 0, page = 0, page_size = 0, sequence_ids = [],
                    errors = ?e, warnings = []\<rparr>"
    using a i
    by (simp add: parse_search_results_def parser_returning_def py_get_def
          extract_warnings_def int_field_def new_SearchResults_def bad_items_def)
  from t g1 g2 g3 have b:
    "errors \<lparr>count = 0, page = 0, page_size = 0, sequence_ids = [],
              errors = ?e, warnings = []\<rparr> = ?e"
    by blast
  from a have a': "extract_errors ?data = Inr [''Phrase not found: '' @ replicate 100 (CHR ''q'') @ ''...'']"
    by simp
  from g3 b have b': "map_sum exn_cls errors (parse_search_results ?P ?X)
                      = Inr [''Phrase not found: '' @ replicate 100 (CHR ''q'') @ ''...'']"
    by simp
  from h1 h2 h3 a' b' show ?thesis by blast
qed

text \<open>
  Repeated \<^verbatim>\<open>PhraseNotFound\<close> elements are parsed to a list of strings, and line 106
  measures and cuts the list, not the text. With two phrases the error string
  holds the \<^verbatim>\<open>repr\<close> of the list.
\<close>

lemma two_phrases_repr:
  "extract_errors (PDict [(''ErrorList'', PDict [(''PhraseNotFound'', PList [PStr ''xyzzy'', PStr ''plugh''])])])
   = Inr [''Phrase not found: ['' @ quoted ''xyzzy'' @ '', '' @ quoted ''plugh'' @ '']'']"
  by code_simp

text \<open>
  C6. The specification says that whenever \<^verbatim>\<open>ErrorList\<close> contains a
  \<^verbatim>\<open>PhraseNotFound\<close> value the normalizer appends exactly one error string, the
  phrase unchanged up to 100 characters and cut with an ellipsis beyond. A response
  with 101 \<^verbatim>\<open>PhraseNotFound\<close> elements is parsed to a list of 101 strings; its
  \<^verbatim>\<open>len\<close> is above 100, so line 106 cuts the list and adds \<^verbatim>\<open>"..."\<close> to it,
  which is a \<^verbatim>\<open>TypeError\<close>: no error string is appended and the normalizer fails
  with an exception that no handler of \<^verbatim>\<open>run\<close> catches.
\<close>

theorem many_phrases_type_error:
  "parse_search_results
     (parser_returning
        (PDict [(''eSearchResult'',
                 PDict [(''Count'', PStr ''0''),
                        (''ErrorList'', PDict [(''PhraseNotFound'', PList (replicate 101 (PStr ''zz'')))])])]))
     (''<eSearchResult><Count>0</Count><ErrorList>''
        @ concat (replicate 101 ''<PhraseNotFound>zz</PhraseNotFound>'')
        @ ''</ErrorList></eSearchResult>'')
   = Inl (Exn TypeError (''can only concatenate list (not '' @ [dquote] @ ''str'' @ [dquote] @ '') to list''))"
  by (simp add: parse_search_results_def parser_returning_def py_get_def extract_errors_def
        phrase_of_def)

subsection \<open>The Search Operation: the success path\<close>

lemma advisory_names_find: "sublist ''find_sequence_records'' advisory_text"
  by code_simp

lemma advisory_names_get: "sublist ''get_sequence_record'' advisory_text"
  by code_simp

lemma run_find_success:
  assumes "http_get (search_url_of (replace_spaces (search_terms p))) = Inr resp"
    and "is_success resp"
    and "parse_search_results xmltodict_parse (resp_text resp) = Inr results"
  shows "run_find http_get xmltodict_parse p =
           ([BeginProcess ''Searching the NCBI Nucleotide database'',
             Log (''Sending GET request to '' @ search_url_of (replace_spaces (search_terms p))),
             HttpGet (search_url_of (replace_spaces (search_terms p)))]
            @ zero_count_logs results
            @ [CreateArtifact (search_artifact (p\<lparr>search_terms := replace_spaces (search_terms p)\<rparr>)
                                 (search_url_of (replace_spaces (search_terms p))) results)]
            @ (if list_ex (\<lambda>error. startswith error ''Phrase not found'') (errors results)
               then [Reply advisory_text] else []),
            Returned, p\<lparr>search_terms := replace_spaces (search_terms p)\<rparr>)"
  using assms by (simp add: run_find_def Let_def)

text \<open>
  C7. On the success path (success status, normalization succeeded) the replies of
  the Search Operation are exactly the advisory reply when some entry of
  \<^verbatim>\<open>errors\<close> starts with \<^verbatim>\<open>Phrase not found\<close>, and none otherwise. The trace is some
  events without artifact or reply, then the artifact, then the replies: the
  advisory reply comes after the artifact. Its text names both operations,
  \<^verbatim>\<open>find_sequence_records\<close> and \<^verbatim>\<open>get_sequence_record\<close>.
\<close>

theorem advisory_reply_iff_phrase_not_found:
  assumes "http_get (search_url_of (replace_spaces (search_terms p))) = Inr resp"
    and "is_success resp"
    and "parse_search_results xmltodict_parse (resp_text resp) = Inr results"
  shows "replies_of (fst (run_find http_get xmltodict_parse p)) =
           (if \<exists>e \<in> set (errors results). prefix ''Phrase not found'' e then [advisory_text] else [])
         \<and> (\<exists>before a. fst (run_find http_get xmltodict_parse p) =
                before @ [CreateArtifact a]
                  @ map Reply (replies_of (fst (run_find http_get xmltodict_parse p)))
                \<and> replies_of before = [] \<and> artifacts_of before = [])
         \<and> sublist ''find_sequence_records'' advisory_text
         \<and> sublist ''get_sequence_record'' advisory_text
         \<and> fst (snd (run_find http_get xmltodict_parse p)) = Returned"
proof -
  let ?c = "\<exists>e \<in> set (errors results). prefix ''Phrase not found'' e"
  have c: "list_ex (\<lambda>error. startswith error ''Phrase not found'') (errors results) = ?c"
    by (simp add: list_ex_iff startswith_def)
  note run = run_find_success [where http_get = http_get and p = p and xmltodict_parse = xmltodict_parse,
                               OF assms, unfolded c]
  have r: "replies_of (fst (run_find http_get xmltodict_parse p)) = (if ?c then [advisory_text] else [])"
    by (simp add: run)
  have "fst (run_find http_get xmltodict_parse p) =
          ([BeginProcess ''Searching the NCBI Nucleotide database'',
            Log (''Sending GET request to '' @ search_url_of (replace_spaces (search_terms p))),
            HttpGet (search_url_of (replace_spaces (search_terms p)))]
           @ zero_count_logs results)
          @ [CreateArtifact (search_artifact (p\<lparr>search_terms := replace_spaces (search_terms p)\<rparr>)
                                 (search_url_of (replace_spaces (search_terms p))) results)]
          @ map Reply (replies_of (fst (run_find http_get xmltodict_parse p)))"
    unfolding r by (simp add: run)
  moreover have "replies_of ([BeginProcess ''Searching the NCBI Nucleotide database'',
            Log (''Sending GET request to '' @ search_url_of (replace_spaces (search_terms p))),
            HttpGet (search_url_of (replace_spaces (search_terms p)))]
           @ zero_count_logs results) = []"
    by simp
  moreover have "artifacts_of ([BeginProcess ''Searching the NCBI Nucleotide database'',
            Log (''Sending GET request to '' @ search_url_of (replace_spaces (search_terms p))),
            HttpGet (search_url_of (replace_spaces (search_terms p)))]
           @ zero_count_logs results) = []"
    by simp
  ultimately have o: "\<exists>before a. fst (run_find http_get xmltodict_parse p) =
                before @ [CreateArtifact a]
                  @ map Reply (replies_of (fst (run_find http_get xmltodict_parse p)))
                \<and> replies_of before = [] \<and> artifacts_of before = []"
    by blast
  have "fst (snd (run_find http_get xmltodict_parse p)) = Returned"
    by (simp add: run)
  with r o advisory_names_find advisory_names_get show ?thesis by blast
qed

theorem advisory_reply_iff_phrase_not_found_witness:
  "is_success \<lparr>status_code = 200, resp_text = ''<eSearchResult><Count>0</Count><ErrorList><PhraseNotFound>zzzqqq</PhraseNotFound></ErrorList></eSearchResult>''\<rparr>
   \<and> parse_search_results
        (parser_returning
           (PDict [(''eSearchResult'',
                    PDict [(''Count'', PStr ''0''),
                           (''ErrorList'', PDict [(''PhraseNotFound'', PStr ''zzzqqq'')])])]))
        ''<eSearchResult><Count>0</Count><ErrorList><PhraseNotFound>zzzqqq</PhraseNotFound></ErrorList></eSearchResult>''
      = Inr \<lparr>count = 0, page = 0, page_size = 0, sequence_ids = [],
              errors = [''Phrase not found: zzzqqq''], warnings = []\<rparr>
   \<and> replies_of (fst (run_find
        (transport_returning \<lparr>status_code = 200, resp_text = ''<eSearchResult><Count>0</Count><ErrorList><PhraseNotFound>zzzqqq</PhraseNotFound></ErrorList></eSearchResult>''\<rparr>)
        (parser_returning
           (PDict [(''eSearchResult'',
                    PDict [(''Count'', PStr ''0''),
                           (''ErrorList'', PDict [(''PhraseNotFound'', PStr ''zzzqqq'')])])]))
        \<lparr>search_terms = ''zzzqqq''\<rparr>)) = [advisory_text]"
proof -
  let ?X = "''<eSearchResult><Count>0</Count><ErrorList><PhraseNotFound>zzzqqq</PhraseNotFound></ErrorList></eSearchResult>''"
  let ?resp = "\<lparr>status_code = 200, resp_text = ?X\<rparr>"
  let ?P = "parser_returning
           (PDict [(''eSearchResult'',
                    PDict [(''Count'', PStr ''0''),
                           (''ErrorList'', PDict [(''PhraseNotFound'', PStr ''zzzqqq'')])])])"
  let ?R = "\<lparr>count = 0, page = 0, page_size = 0, sequence_ids = [],
              errors = [''Phrase not found: zzzqqq''], warnings = []\<rparr>"
  have h1: "transport_returning ?resp
              (search_url_of (replace_spaces (search_terms \<lparr>search_terms = ''zzzqqq''\<rparr>))) = Inr ?resp"
    by (simp add: transport_returning_def)
  have h2: "is_success ?resp" by (simp add: is_success_def)
  have i: "py_int (PStr ''0'') = Inr 0" by code_simp
  have h3: "parse_search_results ?P (resp_text ?resp) = Inr ?R"
    using i
    by (simp add: parse_search_results_def parser_returning_def py_get_def extract_errors_def
          extract_warnings_def phrase_of_def int_field_def new_SearchResults_def bad_items_def)
  have "replies_of (fst (run_find (transport_returning ?resp) ?P \<lparr>search_terms = ''zzzqqq''\<rparr>)) =
          (if \<exists>e \<in> set (errors ?R). prefix ''Phrase not found'' e then [advisory_text] else [])"
    using advisory_reply_iff_phrase_not_found
            [where http_get = "transport_returning ?resp" and p = "\<lparr>search_terms = ''zzzqqq''\<rparr>"
               and xmltodict_parse = ?P and resp = ?resp and results = ?R, OF h1 h2 h3]
    by blast
  then have "replies_of (fst (run_find (transport_returning ?resp) ?P \<lparr>search_terms = ''zzzqqq''\<rparr>)) =
          [advisory_text]"
    by simp
  with h2 h3 show ?thesis by simp
qed

text \<open>
  On every path, success or not, the Search Operation sends no reply other than the
  advisory one, and creates at most one artifact.
\<close>

lemma search_replies_at_most_advisory:
  "replies_of (fst (run_find http_get xmltodict_parse p)) = []
   \<or> replies_of (fst (run_find http_get xmltodict_parse p)) = [advisory_text]"
  by (simp add: run_find_def Let_def split: sum.splits)

lemma search_at_most_one_artifact:
  "length (artifacts_of (fst (run_find http_get xmltodict_parse p))) \<le> 1"
  by (simp add: run_find_def Let_def split: sum.splits)

text \<open>
  For the caller's terms \<^verbatim>\<open>Rattus rattus\<close> the artifact's \<^verbatim>\<open>api_search_terms\<close> is
  the set holding \<^verbatim>\<open>Rattus+rattus\<close>: line 41 overwrote the parameter with the encoded
  terms before the metadata was built, so the terms as the caller gave them are not
  in the metadata.
\<close>

theorem original_terms_counterexample:
  "map_of (metadata (hd (artifacts_of (fst (run_find
      (transport_returning \<lparr>status_code = 200, resp_text = ''<eSearchResult><Count>5</Count></eSearchResult>''\<rparr>)
      (parser_returning (PDict [(''eSearchResult'', PDict [(''Count'', PStr ''5'')])]))
      \<lparr>search_terms = ''Rattus rattus''\<rparr>))))) ''api_search_terms''
     = Some (MStrSet {''Rattus+rattus''})
   \<and> MStrSet {''Rattus+rattus''} \<noteq> MStrSet {''Rattus rattus''}"
proof -
  let ?X = "''<eSearchResult><Count>5</Count></eSearchResult>''"
  let ?resp = "\<lparr>status_code = 200, resp_text = ?X\<rparr>"
  let ?P = "parser_returning (PDict [(''eSearchResult'', PDict [(''Count'', PStr ''5'')])])"
  let ?R = "\<lparr>count = 5, page = 0, page_size = 0, sequence_ids = [], errors = [], warnings = []\<rparr>"
  have h1: "transport_returning ?resp
              (search_url_of (replace_spaces (search_terms \<lparr>search_terms = ''Rattus rattus''\<rparr>))) = Inr ?resp"
    by (simp add: transport_returning_def)
  have h2: "is_success ?resp" by (simp add: is_success_def)
  have i: "py_int (PStr ''5'') = Inr 5" by code_simp
  have h3: "parse_search_results ?P (resp_text ?resp) = Inr ?R"
    using i
    by (simp add: parse_search_results_def parser_returning_def py_get_def extract_errors_def
          extract_warnings_def int_field_def new_SearchResults_def bad_items_def)
  show ?thesis
    by (simp add: run_find_success [where http_get = "transport_returning ?resp"
                                      and p = "\<lparr>search_terms = ''Rattus rattus''\<rparr>"
                                      and xmltodict_parse = ?P, OF h1 h2 h3]
          search_artifact_def replace_spaces_def)
qed

text \<open>
  C8, as the code has it. On the success path the Search Operation creates exactly
  one artifact: MIME type \<^verbatim>\<open>application/json\<close>, the body the UTF-8 bytes of the JSON
  serialization of the result, and metadata with the data source tag, the search
  terms after the replacement of spaces by \<^verbatim>\<open>+\<close> (as a one-element set) and the
  request URL.
\<close>

theorem search_success_one_artifact:
  assumes "http_get (search_url_of (replace_spaces (search_terms p))) = Inr resp"
    and "is_success resp"
    and "parse_search_results xmltodict_parse (resp_text resp) = Inr results"
  shows "artifacts_of (fst (run_find http_get xmltodict_parse p)) =
           [\<lparr>mimetype = ''application/json'',
             description = ''Nucleotide IDs for sequence records matching '' @ [dquote]
                             @ replace_spaces (search_terms p) @ [dquote],
             content = Some (encode_utf8 (model_dump_json results)),
             uris = None,
             metadata = [(''data_source'', MStr ''Nucleotide database''),
                         (''api_search_terms'', MStrSet {replace_spaces (search_terms p)}),
                         (''derived_from'', MStr (search_url_of (replace_spaces (search_terms p))))]\<rparr>]"
  by (simp add: run_find_success [where http_get = http_get and p = p
                                    and xmltodict_parse = xmltodict_parse, OF assms]
        search_artifact_def)

theorem search_success_one_artifact_witness:
  "is_success \<lparr>status_code = 200, resp_text = ''<eSearchResult><Count>5</Count><RetMax>5</RetMax></eSearchResult>''\<rparr>
   \<and> artifacts_of (fst (run_find
        (transport_returning \<lparr>status_code = 200, resp_text = ''<eSearchResult><Count>5</Count><RetMax>5</RetMax></eSearchResult>''\<rparr>)
        (parser_returning (PDict [(''eSearchResult'', PDict [(''Count'', PStr ''5''), (''RetMax'', PStr ''5'')])]))
        \<lparr>search_terms = ''Mus musculus''\<rparr>)) =
       [\<lparr>mimetype = ''application/json'',
         description = ''Nucleotide IDs for sequence records matching '' @ [dquote] @ ''Mus+musculus'' @ [dquote],
         content = Some (encode_utf8 (model_dump_json
                     \<lparr>count = 5, page = 0, page_size = 5, sequence_ids = [], errors = [], warnings = []\<rparr>)),
         uris = None,
         metadata = [(''data_source'', MStr ''Nucleotide database''),
                     (''api_search_terms'', MStrSet {''Mus+musculus''}),
                     (''derived_from'', MStr ''https://eutils.ncbi.nlm.nih.gov/entrez/eutils/esearch.fcgi?db=nuccore&term=Mus+musculus'')]\<rparr>]"
proof -
  let ?X = "''<eSearchResult><Count>5</Count><RetMax>5</RetMax></eSearchResult>''"
  let ?resp = "\<lparr>status_code = 200, resp_text = ?X\<rparr>"
  let ?P = "parser_returning (PDict [(''eSearchResult'', PDict [(''Count'', PStr ''5''), (''RetMax'', PStr ''5'')])])"
  let ?R = "\<lparr>count = 5, page = 0, page_size = 5, sequence_ids = [], errors = [], warnings = []\<rparr>"
  have h1: "transport_returning ?resp
              (search_url_of (replace_spaces (search_terms \<lparr>search_terms = ''Mus musculus''\<rparr>))) = Inr ?resp"
    by (simp add: transport_returning_def)
  have h2: "is_success ?resp" by (simp add: is_success_def)
  have i: "py_int (PStr ''5'') = Inr 5" by code_simp
  have h3: "parse_search_results ?P (resp_text ?resp) = Inr ?R"
    using i
    by (simp add: parse_search_results_def parser_returning_def py_get_def extract_errors_def
          extract_warnings_def int_field_def new_SearchResults_def bad_items_def)
  show ?thesis
    using search_success_one_artifact
            [where http_get = "transport_returning ?resp" and p = "\<lparr>search_terms = ''Mus musculus''\<rparr>"
               and xmltodict_parse = ?P and resp = ?resp and results = ?R, OF h1 h2 h3] h2
    by (simp add: replace_spaces_def search_url_of_def)
qed

end
